theory Spec2Isabelle
  imports Complex_Main "HOL-Library.Word"
begin

section \<open>Plantify: the script \<open>app.py\<close> as a function of its environment\<close>

text \<open>
  \<open>app.py\<close> is a Streamlit script: one run reads three files, draws the page, takes at
  most one image from the upload or the camera widget, and classifies it. The run is
  modelled as a function from the environment (what the files hold, what the user
  provided, what the classifier answers) to the list of calls the script makes on the
  outside world, in program order, together with either a normal end or the exception
  that left the script uncaught.

  Floating-point numbers (pixel values after the division, the classifier's outputs,
  the confidence) are modelled by the reals they denote: the script divides by 255,
  compares scores with each other, which is exact, and compares the confidence with the
  literals 0.85 and 0.6, which numpy does in single precision (see \<open>confidence_banner\<close>).
  Python strings are modelled as byte strings in UTF-8. The script's variable \<open>image\<close>
  is written \<open>img\<close> (an optional image) or \<open>im\<close> (an image). The caching decorators
  only make a later run reuse what the first run loaded; one run is modelled.
\<close>

subsection \<open>Exceptions and the script monad\<close>

datatype exn_class =
    FileNotFoundError | PermissionError | JSONDecodeError | UnidentifiedImageError
  | OSError | ValueError | IndexError | OtherException

text \<open>An exception object: its class (a subclass of \<open>Exception\<close>) and its message.\<close>

datatype py_exception = Raised exn_class string

fun class_of :: "py_exception \<Rightarrow> exn_class" where
  "class_of (Raised c msg) = c"

fun str_of :: "py_exception \<Rightarrow> string" where
  "str_of (Raised c msg) = msg"

subsection \<open>Images and arrays\<close>

text \<open>
  A decoded PIL image with 8-bit bands: its size (width, height), the number of its
  bands (1 for mode L or P, 2 for LA, 3 for RGB, 4 for RGBA or CMYK) and the value of
  band \<open>b\<close> of the pixel in row \<open>y\<close> and column \<open>x\<close>.
\<close>

record image =
  im_size :: "nat \<times> nat"
  im_bands :: nat
  im_px :: "nat \<Rightarrow> nat \<Rightarrow> nat \<Rightarrow> 8 word"

text \<open>
  The resampling filter of \<open>Image.resize\<close> is the library's: it is a parameter, giving
  the pixels of the resized image from the source image and the requested size.
\<close>

type_synonym resampler = "image \<Rightarrow> nat \<times> nat \<Rightarrow> nat \<Rightarrow> nat \<Rightarrow> nat \<Rightarrow> 8 word"

text \<open>
  \<open>image.resize(size)\<close>. PIL returns a copy of the image when it already has the
  requested size, and resamples otherwise; the mode is kept.
\<close>

definition resize :: "resampler \<Rightarrow> image \<Rightarrow> nat \<times> nat \<Rightarrow> image" where
  "resize flt im sz =
     (if im_size im = sz then im else im\<lparr>im_size := sz, im_px := flt im sz\<rparr>)"

text \<open>A numpy array: its shape and its entry at each index.\<close>

record ndarray =
  nd_shape :: "nat list"
  nd_at :: "nat list \<Rightarrow> real"

definition in_bounds :: "nat list \<Rightarrow> nat list \<Rightarrow> bool" where
  "in_bounds shp idx = list_all2 (\<lambda>i n. i < n) idx shp"

text \<open>
  \<open>np.array(img)\<close>: PIL exports a single-band image as a two-dimensional array
  (height, width) and an image of several bands as (height, width, bands).
\<close>

definition np_array :: "image \<Rightarrow> ndarray" where
  "np_array im =
     \<lparr>nd_shape =
        (if im_bands im = 1 then [snd (im_size im), fst (im_size im)]
         else [snd (im_size im), fst (im_size im), im_bands im]),
      nd_at = (\<lambda>idx. case idx of
                  [y, x] \<Rightarrow> real (unat (im_px im y x 0))
                | [y, x, b] \<Rightarrow> real (unat (im_px im y x b))
                | _ \<Rightarrow> 0)\<rparr>"

definition np_divide :: "ndarray \<Rightarrow> real \<Rightarrow> ndarray" where
  "np_divide a d = a\<lparr>nd_at := (\<lambda>idx. nd_at a idx / d)\<rparr>"

text \<open>\<open>np.expand_dims(a, axis=0)\<close>.\<close>

definition np_expand_dims0 :: "ndarray \<Rightarrow> ndarray" where
  "np_expand_dims0 a = \<lparr>nd_shape = 1 # nd_shape a, nd_at = (\<lambda>idx. nd_at a (tl idx))\<rparr>"

text \<open>Lines 110 to 112: resize, divide by 255.0, add the batch axis.\<close>

definition preprocess :: "resampler \<Rightarrow> image \<Rightarrow> ndarray" where
  "preprocess flt im =
     (let img = resize flt im (128, 128);
          img_array = np_divide (np_array img) 255;
          img_array = np_expand_dims0 img_array
      in img_array)"

subsection \<open>Calls on the outside world\<close>

text \<open>
  One constructor for each kind of call the script makes, with the arguments that the
  script computes. \<open>St_columns\<close> holds the relative widths (\<open>st.columns(2)\<close> is two
  equal columns); \<open>St_metric_percent\<close> holds the number that the script formats with two
  decimals and a percent sign; \<open>In_tab\<close> is a call made inside the tab of that title.
\<close>

datatype call =
    St_error string
  | St_success string
  | St_warning string
  | St_info string
  | St_header string
  | St_subheader string
  | St_markdown string
  | St_write string
  | St_set_page_config string string string
  | St_sidebar_title string
  | St_sidebar_info string
  | St_sidebar_radio string "string list"
  | St_columns "real list"
  | St_file_uploader string "string list"
  | St_camera_input string
  | St_image image string
  | St_spinner string
  | Time_sleep nat
  | Image_resize "nat \<times> nat"
  | Model_predict ndarray
  | St_metric string string
  | St_metric_percent string real
  | St_balloons
  | St_tabs "string list"
  | In_tab string call

text \<open>
  A piece of the script: the calls it made, and its value or the exception it raised.
\<close>

type_synonym 'a script = "call list \<times> (py_exception + 'a)"

definition ret :: "'a \<Rightarrow> 'a script" where
  "ret v = ([], Inr v)"

definition raise :: "py_exception \<Rightarrow> 'a script" where
  "raise e = ([], Inl e)"

definition emit :: "call list \<Rightarrow> unit script" where
  "emit cs = (cs, Inr ())"

definition lift :: "py_exception + 'a \<Rightarrow> 'a script" where
  "lift r = ([], r)"

text \<open>Sequencing: an exception in the first part skips the second.\<close>

definition andthen :: "'a script \<Rightarrow> ('a \<Rightarrow> 'b script) \<Rightarrow> 'b script" where
  "andthen m f =
     (case m of
        (t, Inl e) \<Rightarrow> (t, Inl e)
      | (t, Inr v) \<Rightarrow> (case f v of (t', r) \<Rightarrow> (t @ t', r)))"

text \<open>\<open>try: m except ... as e: h e\<close>; a handler that does not match re-raises.\<close>

definition try_except :: "'a script \<Rightarrow> (py_exception \<Rightarrow> 'a script) \<Rightarrow> 'a script" where
  "try_except m h =
     (case m of
        (t, Inl e) \<Rightarrow> (case h e of (t', r) \<Rightarrow> (t @ t', r))
      | (t, Inr v) \<Rightarrow> (t, Inr v))"

subsection \<open>Strings and dictionaries\<close>

definition leaf :: string where
  "leaf = [CHR 0xF0, CHR 0x9F, CHR 0x8C, CHR 0xBF]"

definition camera :: string where
  "camera = [CHR 0xF0, CHR 0x9F, CHR 0x93, CHR 0xB8]"

definition brain :: string where
  "brain = [CHR 0xF0, CHR 0x9F, CHR 0xA7, CHR 0xA0]"

definition check_mark :: string where
  "check_mark = [CHR 0xE2, CHR 0x9C, CHR 0x85]"

definition memo :: string where
  "memo = [CHR 0xF0, CHR 0x9F, CHR 0x93, CHR 0x9D]"

definition party :: string where
  "party = [CHR 0xF0, CHR 0x9F, CHR 0x8E, CHR 0x89]"

text \<open>
  \<open>str.lower\<close> on the bytes: the ASCII capitals change. (Python also lowers letters
  beyond ASCII; none of them becomes a letter of \<open>healthy\<close>, so the test of line 145 is
  the same.)
\<close>

definition lower_char :: "char \<Rightarrow> char" where
  "lower_char c =
     (let n = (of_char c :: nat) in if 65 \<le> n \<and> n \<le> 90 then char_of (n + 32) else c)"

definition lower :: "string \<Rightarrow> string" where
  "lower s = map lower_char s"

text \<open>\<open>sub in s\<close> for strings.\<close>

fun str_contains :: "string \<Rightarrow> string \<Rightarrow> bool" where
  "str_contains sub [] = (sub = [])"
| "str_contains sub (c # cs) = (take (length sub) (c # cs) = sub \<or> str_contains sub cs)"

text \<open>A dictionary with string keys, as the list of its items.\<close>

type_synonym 'v dict = "(string \<times> 'v) list"

definition dict_get :: "'v dict \<Rightarrow> string \<Rightarrow> 'v \<Rightarrow> 'v" where
  "dict_get d k dflt = (case map_of d k of Some v \<Rightarrow> v | None \<Rightarrow> dflt)"

text \<open>\<open>xs[i]\<close> for an index that is not negative.\<close>

definition list_getitem :: "'a list \<Rightarrow> nat \<Rightarrow> py_exception + 'a" where
  "list_getitem xs i =
     (if i < length xs then Inr (xs ! i) else Inl (Raised IndexError ''list index out of range''))"

subsection \<open>The environment of one run\<close>

text \<open>The classifier: what \<open>model.predict\<close> answers on a tensor, one row of scores.\<close>

type_synonym keras_model = "ndarray \<Rightarrow> py_exception + real list"

text \<open>An uploaded file or camera frame: what \<open>Image.open\<close> makes of it.\<close>

type_synonym upload = "py_exception + image"

datatype input_method = Upload_Image | Camera_Capture

text \<open>
  \<open>load_model\<close> is the outcome of \<open>tf.keras.models.load_model\<close>;
  \<open>class_names_json\<close> and \<open>disease_info_json\<close> are the outcomes of opening and parsing
  the two JSON files (a list of labels; a dictionary from label to a dictionary of
  texts).
\<close>

record world =
  load_model :: "py_exception + keras_model"
  class_names_json :: "py_exception + string list"
  disease_info_json :: "py_exception + (string dict) dict"
  upload_option :: input_method
  uploaded_file :: "upload option"
  camera_input :: "upload option"
  resample :: resampler

subsection \<open>The loaders (lines 12 to 55)\<close>

definition load_app_model :: "py_exception + keras_model \<Rightarrow> keras_model option script" where
  "load_app_model r =
     try_except
       (andthen (lift r) (\<lambda>model. ret (Some model)))
       (\<lambda>e. andthen
          (emit [St_error (''Error loading model: '' @ str_of e),
                 St_error ''Please ensure 'trained_model.keras' is the correct binary model file and is in the same folder as app.py.''])
          (\<lambda>_. ret None))"

definition load_class_names :: "py_exception + string list \<Rightarrow> string list script" where
  "load_class_names r =
     try_except
       (andthen (lift r) (\<lambda>class_names. ret class_names))
       (\<lambda>e. if class_of e = FileNotFoundError
             then andthen (emit [St_error ''Error: 'class_names.json' not found.'']) (\<lambda>_. ret [])
             else raise e)"

definition load_disease_info :: "py_exception + (string dict) dict \<Rightarrow> (string dict) dict script" where
  "load_disease_info r =
     try_except
       (andthen (lift r) (\<lambda>disease_info. ret disease_info))
       (\<lambda>e. if class_of e = FileNotFoundError
             then andthen (emit [St_error ''Error: 'disease_info.json' not found.'']) (\<lambda>_. ret [])
             else raise e)"

subsection \<open>The page (lines 60 to 99)\<close>

definition page_top :: "call list" where
  "page_top =
     [St_set_page_config ''Plantify Disease Detection'' leaf ''wide'',
      St_markdown (''<h1 style='text-align: center; color: #4CAF50;'>'' @ leaf
                   @ '' Plantify Disease Detection '' @ leaf @ ''</h1>''),
      St_markdown ''<h3 style='text-align: center; color: #555;'>Upload a leaf image and let AI analyze its health.</h3>'',
      St_markdown ''---'',
      St_sidebar_title ''About'',
      St_sidebar_info ''This app uses AI to detect plant diseases from leaf images. Upload an image or use your camera to get started!'',
      St_sidebar_title (camera @ '' Upload Options''),
      St_sidebar_radio ''Choose input method:'' [''Upload Image'', ''Camera Capture''],
      St_columns [1, 1.2]]"

definition Image_open :: "upload \<Rightarrow> image script" where
  "Image_open f = lift f"

text \<open>Column 1: the image, if one was provided and opened.\<close>

definition provide_image :: "world \<Rightarrow> image option script" where
  "provide_image w =
     andthen (emit [St_header ''1. Provide an Image'']) (\<lambda>_.
     andthen
       (case upload_option w of
          Upload_Image \<Rightarrow>
            andthen (emit [St_file_uploader ''Click to upload a plant leaf image:''
                             [''jpg'', ''png'', ''jpeg'', ''bmp'', ''webp'']]) (\<lambda>_.
            case uploaded_file w of
              Some f \<Rightarrow>
                try_except
                  (andthen (Image_open f) (\<lambda>im. ret (Some im)))
                  (\<lambda>e. andthen
                     (emit [St_error (''Error opening image file: '' @ str_of e
                                      @ ''. Please try a different file.'')])
                     (\<lambda>_. ret None))
            | None \<Rightarrow> ret None)
        | Camera_Capture \<Rightarrow>
            andthen (emit [St_camera_input ''Take a picture of the leaf'']) (\<lambda>_.
            case camera_input w of
              Some f \<Rightarrow> andthen (Image_open f) (\<lambda>im. ret (Some im))
            | None \<Rightarrow> ret None))
       (\<lambda>img.
     andthen
       (case img of
          Some im \<Rightarrow> emit [St_image im ''Your Image'']
        | None \<Rightarrow> emit [])
       (\<lambda>_. ret img)))"

subsection \<open>Prediction (lines 106 to 118)\<close>

text \<open>
  The classifier's answer for the batch of one image is one row of scores; \<open>np.argmax\<close>
  and \<open>np.max\<close> without an axis work on that row. \<open>np.argmax\<close> is one pass that keeps
  the index of the running maximum and replaces it only by a strictly greater entry;
  both raise \<open>ValueError\<close> on an empty array.
\<close>

fun argmax_from :: "real list \<Rightarrow> nat \<Rightarrow> nat \<Rightarrow> real \<Rightarrow> nat" where
  "argmax_from [] i best mx = best"
| "argmax_from (x # xs) i best mx =
     (if mx < x then argmax_from xs (Suc i) i x else argmax_from xs (Suc i) best mx)"

definition np_argmax :: "real list \<Rightarrow> py_exception + nat" where
  "np_argmax ps =
     (case ps of
        [] \<Rightarrow> Inl (Raised ValueError ''attempt to get argmax of an empty sequence'')
      | x # xs \<Rightarrow> Inr (argmax_from xs 1 0 x))"

definition np_max :: "real list \<Rightarrow> py_exception + real" where
  "np_max ps =
     (case ps of
        [] \<Rightarrow> Inl (Raised ValueError ''zero-size array to reduction operation maximum which has no identity'')
      | x # xs \<Rightarrow> Inr (fold max xs x))"

text \<open>Lines 116 to 118.\<close>

definition interpretation_of :: "real list \<Rightarrow> string list \<Rightarrow> (nat \<times> real \<times> string) script" where
  "interpretation_of predictions class_names =
     andthen (lift (np_argmax predictions)) (\<lambda>predicted_idx.
     andthen (lift (np_max predictions)) (\<lambda>confidence.
     andthen (lift (list_getitem class_names predicted_idx)) (\<lambda>predicted_class.
     ret (predicted_idx, confidence, predicted_class))))"

definition model_predict :: "keras_model \<Rightarrow> ndarray \<Rightarrow> real list script" where
  "model_predict model img_array = ([Model_predict img_array], model img_array)"

definition predict_stage ::
  "resampler \<Rightarrow> image \<Rightarrow> keras_model \<Rightarrow> string list \<Rightarrow> (nat \<times> real \<times> string) script" where
  "predict_stage flt im model class_names =
     andthen (emit [St_spinner (brain @ '' Analyzing the image... Please wait.''),
                    Time_sleep 1,
                    Image_resize (128, 128)]) (\<lambda>_.
     andthen (model_predict model (preprocess flt im)) (\<lambda>predictions.
     interpretation_of predictions class_names))"

subsection \<open>The result (lines 121 to 171)\<close>

text \<open>
  Between 1/2 and 1, a binary floating-point format whose significand has \<open>p\<close> bits holds
  the multiples of \<open>2\<^sup>-\<^sup>p\<close>; a value is rounded to the nearest of them, a tie to the even
  one.
\<close>

definition round_ties_even :: "real \<Rightarrow> int" where
  "round_ties_even x =
     (let f = \<lfloor>x\<rfloor>; r = x - of_int f
      in if r < 1 / 2 then f else if 1 / 2 < r then f + 1 else if even f then f else f + 1)"

definition nearest_multiple :: "nat \<Rightarrow> real \<Rightarrow> real" where
  "nearest_multiple p x = of_int (round_ties_even (x * 2 ^ p)) / 2 ^ p"

text \<open>
  The double that a Python literal between 1/2 and 1 denotes (53 bits), and the float32
  that numpy converts such a double to (24 bits).
\<close>

definition py_float :: "real \<Rightarrow> real" where
  "py_float x = nearest_multiple 53 x"

definition np_float32 :: "real \<Rightarrow> real" where
  "np_float32 x = nearest_multiple 24 x"

text \<open>
  Lines 128 to 133. \<open>confidence\<close> is the \<open>np.float32\<close> that \<open>np.max\<close> returned from the
  classifier's scores. Comparing it with a Python float, numpy (from version 2 on)
  converts the Python float to float32 and compares there. (Before version 2 numpy
  compared in double precision; the repository names no version.)
\<close>

definition confidence_banner :: "real \<Rightarrow> call" where
  "confidence_banner confidence =
     (if confidence > np_float32 (py_float 0.85)
        then St_success ''High confidence in this prediction.''
      else if confidence > np_float32 (py_float 0.6)
        then St_warning ''Moderate confidence. The result may be less accurate.''
      else St_error ''Low confidence. Please try a clearer, more centered image.'')"

definition not_available :: string where
  "not_available = ''Information for this disease is not available in the database.''"

definition disease_information :: "string \<Rightarrow> (string dict) dict \<Rightarrow> call list" where
  "disease_information predicted_class disease_info =
     (case map_of disease_info predicted_class of
        Some info \<Rightarrow>
          (if str_contains ''healthy'' (lower predicted_class) then
             [St_balloons,
              St_success (''**Status: '' @ dict_get info ''title'' ''Healthy'' @ ''** '' @ party),
              St_write (dict_get info ''description''
                          ''The plant appears to be in good health. Keep up the good care!''),
              St_write (''**Symptoms:** '' @ dict_get info ''symptoms'' ''N/A''),
              St_write (''**Prevention:** '' @ dict_get info ''prevention'' ''N/A'')]
           else
             [St_tabs [''Description'', ''Symptoms'', ''Prevention'', ''Remedy''],
              In_tab ''Description'' (St_subheader (dict_get info ''title'' predicted_class)),
              In_tab ''Description''
                (St_write (dict_get info ''description'' ''No description available.'')),
              In_tab ''Symptoms''
                (St_write (dict_get info ''symptoms'' ''No symptoms information available.'')),
              In_tab ''Prevention''
                (St_write (dict_get info ''prevention'' ''No prevention information available.'')),
              In_tab ''Remedy''
                (St_write (dict_get info ''remedy'' ''No remedy information available.''))])
      | None \<Rightarrow> [St_error not_available])"

definition show_result :: "string \<Rightarrow> real \<Rightarrow> (string dict) dict \<Rightarrow> call list" where
  "show_result predicted_class confidence disease_info =
     [St_subheader (check_mark @ '' Prediction''),
      St_columns [1, 1],
      St_metric ''Detected Disease:'' predicted_class,
      St_metric_percent ''Confidence:'' (confidence * 100),
      confidence_banner confidence,
      St_markdown ''---'',
      St_subheader (memo @ '' Disease Information'')]
     @ disease_information predicted_class disease_info"

subsection \<open>Column 2 and the whole script\<close>

definition analysis ::
  "resampler \<Rightarrow> image option \<Rightarrow> keras_model option \<Rightarrow> string list \<Rightarrow> (string dict) dict
     \<Rightarrow> unit script" where
  "analysis flt img model class_names disease_info =
     andthen (emit [St_header ''2. Analysis Result'']) (\<lambda>_.
       if img \<noteq> None \<and> model \<noteq> None \<and> class_names \<noteq> [] \<and> disease_info \<noteq> [] then
         andthen (predict_stage flt (the img) (the model) class_names)
           (\<lambda>(predicted_idx, confidence, predicted_class).
              emit (show_result predicted_class confidence disease_info))
       else if \<not> (model \<noteq> None \<and> class_names \<noteq> [] \<and> disease_info \<noteq> []) then
         emit [St_error ''App is not fully loaded. Check for file loading errors above.'']
       else
         emit [St_info ''Please upload an image or use the camera to get an analysis.''])"

definition app :: "world \<Rightarrow> unit script" where
  "app w =
     andthen (load_app_model (load_model w)) (\<lambda>model.
     andthen (load_class_names (class_names_json w)) (\<lambda>class_names.
     andthen (load_disease_info (disease_info_json w)) (\<lambda>disease_info.
     andthen (emit page_top) (\<lambda>_.
     andthen (provide_image w) (\<lambda>img.
     analysis (resample w) img model class_names disease_info)))))"

text \<open>The calls of inference: the resize of preprocessing and the classifier's call.\<close>

fun is_inference :: "call \<Rightarrow> bool" where
  "is_inference (Image_resize sz) = True"
| "is_inference (Model_predict a) = True"
| "is_inference c = False"

fun is_st_error :: "call \<Rightarrow> bool" where
  "is_st_error (St_error msg) = True"
| "is_st_error c = False"

text \<open>
  The calls that render disease information: the tabs and what is written in them, and
  the balloons and written texts of the healthy branch.
\<close>

fun is_information :: "call \<Rightarrow> bool" where
  "is_information (St_tabs titles) = True"
| "is_information (In_tab title c) = True"
| "is_information (St_write txt) = True"
| "is_information St_balloons = True"
| "is_information c = False"

subsection \<open>Example environments\<close>

text \<open>Nearest-neighbour resampling, as one possible filter.\<close>

definition nearest :: resampler where
  "nearest im sz y x b =
     im_px im (y * snd (im_size im) div snd sz) (x * fst (im_size im) div fst sz) b"

definition rgb_photo :: image where
  "rgb_photo = \<lparr>im_size = (640, 480), im_bands = 3, im_px = (\<lambda>y x b. of_nat (x + y + b))\<rparr>"

definition gray_photo :: image where
  "gray_photo = \<lparr>im_size = (640, 480), im_bands = 1, im_px = (\<lambda>y x b. of_nat (x + y))\<rparr>"

text \<open>A 128 by 128 image of three bands whose values are all 1, so already within [0, 1].\<close>

definition ones_image :: image where
  "ones_image = \<lparr>im_size = (128, 128), im_bands = 3, im_px = (\<lambda>y x b. 1)\<rparr>"

text \<open>A classifier of two outputs.\<close>

definition two_output_model :: keras_model where
  "two_output_model a = Inr [0.1, 0.9]"

text \<open>
  A run with every file loaded and an RGB photograph uploaded; the label list has one
  entry while the classifier has two outputs.
\<close>

definition short_labels_world :: world where
  "short_labels_world =
     \<lparr>load_model = Inr two_output_model,
      class_names_json = Inr [''A''],
      disease_info_json = Inr [(''A'', [(''description'', ''d'')])],
      upload_option = Upload_Image,
      uploaded_file = Some (Inr rgb_photo),
      camera_input = None,
      resample = nearest\<rparr>"

text \<open>A run in camera mode whose frame does not decode, every file loaded.\<close>

definition bad_frame :: py_exception where
  "bad_frame = Raised UnidentifiedImageError ''cannot identify image file''"

definition bad_camera_world :: world where
  "bad_camera_world =
     \<lparr>load_model = Inr two_output_model,
      class_names_json = Inr [''A'', ''B''],
      disease_info_json = Inr [(''A'', [(''description'', ''d'')])],
      upload_option = Camera_Capture,
      uploaded_file = None,
      camera_input = Some (Inl bad_frame),
      resample = nearest\<rparr>"

text \<open>A run whose model file is missing, with an RGB photograph uploaded.\<close>

definition no_model_world :: world where
  "no_model_world =
     \<lparr>load_model = Inl (Raised ValueError ''File not found: filepath=trained_model.keras''),
      class_names_json = Inr [''A'', ''B''],
      disease_info_json = Inr [(''A'', [(''description'', ''d'')])],
      upload_option = Upload_Image,
      uploaded_file = Some (Inr rgb_photo),
      camera_input = None,
      resample = nearest\<rparr>"

text \<open>What \<open>json.load\<close> raises on a file that is not JSON.\<close>

definition parse_error :: py_exception where
  "parse_error = Raised JSONDecodeError ''Expecting value: line 1 column 1 (char 0)''"

section \<open>Properties\<close>

subsection \<open>The arg-max scan\<close>

lemma argmax_from_spec:
  assumes "i = length pre" "best < i" "mx = (pre @ xs) ! best"
    "\<forall>j<i. (pre @ xs) ! j \<le> mx" "\<forall>j<best. (pre @ xs) ! j < mx"
  shows "argmax_from xs i best mx < length (pre @ xs)
       \<and> (\<forall>j<length (pre @ xs). (pre @ xs) ! j \<le> (pre @ xs) ! argmax_from xs i best mx)
       \<and> (\<forall>j<argmax_from xs i best mx. (pre @ xs) ! j < (pre @ xs) ! argmax_from xs i best mx)"
  using assms
proof (induction xs arbitrary: pre i best mx)
  case Nil
  then show ?case by simp
next
  case (Cons x xs)
  have split: "pre @ x # xs = (pre @ [x]) @ xs" by simp
  show ?case
  proof (cases "mx < x")
    case True
    have "argmax_from xs (Suc i) i x < length ((pre @ [x]) @ xs)
       \<and> (\<forall>j<length ((pre @ [x]) @ xs). ((pre @ [x]) @ xs) ! j \<le> ((pre @ [x]) @ xs) ! argmax_from xs (Suc i) i x)
       \<and> (\<forall>j<argmax_from xs (Suc i) i x. ((pre @ [x]) @ xs) ! j < ((pre @ [x]) @ xs) ! argmax_from xs (Suc i) i x)"
    proof (rule Cons.IH)
      show "Suc i = length (pre @ [x])" using Cons.prems(1) by simp
      show "i < Suc i" by simp
      show "x = ((pre @ [x]) @ xs) ! i" using Cons.prems(1) by (simp add: nth_append)
      show "\<forall>j<Suc i. ((pre @ [x]) @ xs) ! j \<le> x"
      proof (intro allI impI)
        fix j assume "j < Suc i"
        then consider "j < i" | "j = i" by linarith
        then show "((pre @ [x]) @ xs) ! j \<le> x"
        proof cases
          case 1
          then have "(pre @ x # xs) ! j \<le> mx" using Cons.prems(4) by blast
          then show ?thesis using True by simp
        next
          case 2
          then show ?thesis using Cons.prems(1) by (simp add: nth_append)
        qed
      qed
      show "\<forall>j<i. ((pre @ [x]) @ xs) ! j < x"
      proof (intro allI impI)
        fix j assume "j < i"
        then have "(pre @ x # xs) ! j \<le> mx" using Cons.prems(4) by blast
        then show "((pre @ [x]) @ xs) ! j < x" using True by simp
      qed
    qed
    then show ?thesis using True by simp
  next
    case False
    have "argmax_from xs (Suc i) best mx < length ((pre @ [x]) @ xs)
       \<and> (\<forall>j<length ((pre @ [x]) @ xs). ((pre @ [x]) @ xs) ! j \<le> ((pre @ [x]) @ xs) ! argmax_from xs (Suc i) best mx)
       \<and> (\<forall>j<argmax_from xs (Suc i) best mx. ((pre @ [x]) @ xs) ! j < ((pre @ [x]) @ xs) ! argmax_from xs (Suc i) best mx)"
    proof (rule Cons.IH)
      show "Suc i = length (pre @ [x])" using Cons.prems(1) by simp
      show "best < Suc i" using Cons.prems(2) by simp
      show "mx = ((pre @ [x]) @ xs) ! best" using Cons.prems(3) by simp
      show "\<forall>j<Suc i. ((pre @ [x]) @ xs) ! j \<le> mx"
      proof (intro allI impI)
        fix j assume "j < Suc i"
        then consider "j < i" | "j = i" by linarith
        then show "((pre @ [x]) @ xs) ! j \<le> mx"
        proof cases
          case 1
          then show ?thesis using Cons.prems(4) by simp
        next
          case 2
          then have "((pre @ [x]) @ xs) ! j = x" using Cons.prems(1) by (simp add: nth_append)
          then show ?thesis using False by simp
        qed
      qed
      show "\<forall>j<best. ((pre @ [x]) @ xs) ! j < mx" using Cons.prems(5) by simp
    qed
    then show ?thesis using False by simp
  qed
qed

lemma np_argmax_first_max:
  assumes "ps \<noteq> []"
  shows "\<exists>i. np_argmax ps = Inr i \<and> i < length ps \<and> ps ! i = Max (set ps)
             \<and> (\<forall>j<i. ps ! j < ps ! i)"
proof -
  obtain x xs where ps: "ps = x # xs" using assms by (cases ps) auto
  let ?r = "argmax_from xs 1 0 x"
  have spec: "?r < length ([x] @ xs)
       \<and> (\<forall>j<length ([x] @ xs). ([x] @ xs) ! j \<le> ([x] @ xs) ! ?r)
       \<and> (\<forall>j<?r. ([x] @ xs) ! j < ([x] @ xs) ! ?r)"
    by (rule argmax_from_spec) simp_all
  then have lt: "?r < length ps" and ub: "\<forall>j<length ps. ps ! j \<le> ps ! ?r"
    and first: "\<forall>j<?r. ps ! j < ps ! ?r"
    using ps by simp_all
  have "ps ! ?r \<in> set ps" using lt by simp
  moreover have "\<forall>y\<in>set ps. y \<le> ps ! ?r" using ub by (auto simp: in_set_conv_nth)
  ultimately have "Max (set ps) = ps ! ?r" by (intro Max_eqI) auto
  then show ?thesis using lt first ps by (simp add: np_argmax_def)
qed

lemma np_max_Max: "ps \<noteq> [] \<Longrightarrow> np_max ps = Inr (Max (set ps))"
proof (cases ps)
  case Nil
  assume "ps \<noteq> []"
  with Nil show ?thesis by simp
next
  case (Cons x xs)
  have "fold max xs x = Max (set (x # xs))" by (rule Max.set_eq_fold [symmetric])
  then show ?thesis using Cons by (simp add: np_max_def)
qed

text \<open>
  C1. For a non-empty vector of scores and a label list of the same length, lines 116 to
  118 raise nothing and yield an index \<open>i\<close>, the confidence and the class such that
  \<open>i\<close> is the first index that holds the maximum entry of the vector, the confidence
  is that entry, and the class is the label at \<open>i\<close>.
\<close>

theorem predicted_index_is_first_maximum:
  assumes "ps \<noteq> []" and "length class_names = length ps"
  shows "\<exists>i. interpretation_of ps class_names = ([], Inr (i, ps ! i, class_names ! i))
            \<and> i < length ps \<and> ps ! i = Max (set ps) \<and> (\<forall>j<i. ps ! j < ps ! i)"
proof -
  obtain i where i: "np_argmax ps = Inr i" "i < length ps" "ps ! i = Max (set ps)"
    "\<forall>j<i. ps ! j < ps ! i"
    using np_argmax_first_max [OF assms(1)] by blast
  have "interpretation_of ps class_names = ([], Inr (i, ps ! i, class_names ! i))"
    using i(1,2,3) assms
    by (simp add: interpretation_of_def andthen_def lift_def ret_def np_max_Max list_getitem_def)
  then show ?thesis using i by blast
qed

theorem predicted_index_is_first_maximum_witness:
  "[0.2, 0.8 :: real] \<noteq> [] \<and> length [''A'', ''B''] = length [0.2, 0.8 :: real]
   \<and> interpretation_of [0.2, 0.8] [''A'', ''B''] = ([], Inr (1, 0.8, ''B''))"
proof -
  have h1: "[0.2, 0.8 :: real] \<noteq> []" by simp
  have h2: "length [''A'', ''B''] = length [0.2, 0.8 :: real]" by simp
  obtain i where r: "interpretation_of [0.2, 0.8] [''A'', ''B'']
                       = ([], Inr (i, [0.2, 0.8] ! i, [''A'', ''B''] ! i))"
    and lt: "i < length [0.2, 0.8 :: real]"
    and mx: "[0.2, 0.8] ! i = Max (set [0.2, 0.8 :: real])"
    using predicted_index_is_first_maximum [OF h1 h2] by blast
  have "i = 1"
  proof (cases i)
    case 0
    with mx show ?thesis by simp
  next
    case (Suc n)
    with lt show ?thesis by simp
  qed
  with r h1 h2 show ?thesis by simp
qed

subsection \<open>Confidence tiers\<close>









subsection \<open>Preprocessing\<close>

lemma byte_over_255: "0 \<le> real (unat (v :: 8 word)) / 255 \<and> real (unat v) / 255 \<le> 1"
proof -
  have "unat v < 2 ^ 8" using unsigned_less [of v, where ?'a = nat] by simp
  then have "unat v \<le> 255" by simp
  then have "real (unat v) \<le> real 255" by (simp only: of_nat_le_iff)
  moreover have "0 \<le> real (unat v)" by (rule of_nat_0_le_iff)
  ultimately show ?thesis by (simp only: divide_le_eq_1 zero_le_divide_iff) simp
qed

lemma resize_size: "im_size (resize flt im sz) = sz"
  by (simp add: resize_def)

lemma resize_bands: "im_bands (resize flt im sz) = im_bands im"
  by (simp add: resize_def)

lemma preprocess_shape:
  "nd_shape (preprocess flt im) =
     (if im_bands im = 1 then [1, 128, 128] else [1, 128, 128, im_bands im])"
  by (simp add: preprocess_def Let_def np_expand_dims0_def np_divide_def np_array_def
      resize_size resize_bands)

lemma preprocess_entry4:
  "nd_at (preprocess flt im) [n, y, x, b]
     = real (unat (im_px (resize flt im (128, 128)) y x b)) / 255"
  by (simp add: preprocess_def Let_def np_expand_dims0_def np_divide_def np_array_def)

text \<open>
  C3. For an image of three 8-bit bands, preprocessing resizes it to 128 by 128, yields a
  tensor of shape (1, 128, 128, 3), and every entry is the resized image's band value
  divided by 255, so it lies between 0 and 1.
\<close>

theorem preprocess_three_channels:
  assumes "im_bands im = 3"
  shows "im_size (resize flt im (128, 128)) = (128, 128)
       \<and> nd_shape (preprocess flt im) = [1, 128, 128, 3]
       \<and> (\<forall>n y x b. nd_at (preprocess flt im) [n, y, x, b]
                       = real (unat (im_px (resize flt im (128, 128)) y x b)) / 255
                   \<and> 0 \<le> nd_at (preprocess flt im) [n, y, x, b]
                   \<and> nd_at (preprocess flt im) [n, y, x, b] \<le> 1)"
proof -
  have "nd_shape (preprocess flt im) = [1, 128, 128, 3]"
    using assms by (simp add: preprocess_shape)
  moreover have "\<forall>n y x b. 0 \<le> nd_at (preprocess flt im) [n, y, x, b]
                   \<and> nd_at (preprocess flt im) [n, y, x, b] \<le> 1"
    unfolding preprocess_entry4 using byte_over_255 by blast
  ultimately show ?thesis
    using preprocess_entry4 [of flt im] by (simp only: resize_size) blast
qed

theorem preprocess_three_channels_witness:
  "im_bands rgb_photo = 3
   \<and> im_size (resize nearest rgb_photo (128, 128)) = (128, 128)
   \<and> nd_shape (preprocess nearest rgb_photo) = [1, 128, 128, 3]
   \<and> nd_at (preprocess nearest rgb_photo) [0, 2, 1, 0] = 12 / 255"
proof -
  have h: "im_bands rgb_photo = 3" by (simp add: rgb_photo_def)
  have px: "im_px (resize nearest rgb_photo (128, 128)) 2 1 0 = 12"
    by (simp add: resize_def rgb_photo_def nearest_def)
  note t = preprocess_three_channels [OF h, of nearest]
  have "nd_at (preprocess nearest rgb_photo) [0, 2, 1, 0]
          = real (unat (im_px (resize nearest rgb_photo (128, 128)) 2 1 0)) / 255"
    using t by blast
  then have e: "nd_at (preprocess nearest rgb_photo) [0, 2, 1, 0] = 12 / 255"
    unfolding px by simp
  show ?thesis using h t e by blast
qed

text \<open>
  C4, as the claim states it, fails: on a 128 by 128 image of three bands whose values
  are all 1 (so within [0, 1]), resize followed by the division does not give back the
  image's values; the entry is 1/255.
\<close>

theorem rescale_not_idempotent_counterexample:
  "im_size ones_image = (128, 128) \<and> im_bands ones_image = 3
   \<and> (\<forall>y x b. real (unat (im_px ones_image y x b)) = 1)
   \<and> nd_at (np_divide (np_array (resize nearest ones_image (128, 128))) 255) [0, 0, 0]
        = 1 / 255
   \<and> nd_at (np_divide (np_array (resize nearest ones_image (128, 128))) 255) [0, 0, 0]
        \<noteq> nd_at (np_array ones_image) [0, 0, 0]"
  by (simp add: ones_image_def resize_def np_divide_def np_array_def)

text \<open>
  C4, amended. On an image that is already 128 by 128 with three bands, the resize step
  leaves the image unchanged; the division is applied whatever the range of the values,
  so every entry of the tensor is the image's value divided by 255, and the tensor has
  shape (1, 128, 128, 3).
\<close>

theorem resize_noop_rescale_divides:
  assumes "im_size im = (128, 128)" and "im_bands im = 3"
  shows "resize flt im (128, 128) = im
       \<and> nd_shape (preprocess flt im) = [1, 128, 128, 3]
       \<and> (\<forall>y x b. nd_at (preprocess flt im) [0, y, x, b] = nd_at (np_array im) [y, x, b] / 255)"
  using assms
  by (simp add: preprocess_shape preprocess_entry4) (simp add: resize_def np_array_def)

theorem resize_noop_rescale_divides_witness:
  "im_size ones_image = (128, 128) \<and> im_bands ones_image = 3
   \<and> resize nearest ones_image (128, 128) = ones_image
   \<and> nd_at (preprocess nearest ones_image) [0, 5, 7, 2] = 1 / 255"
proof -
  have h1: "im_size ones_image = (128, 128)" by (simp add: ones_image_def)
  have h2: "im_bands ones_image = 3" by (simp add: ones_image_def)
  have v: "nd_at (np_array ones_image) [5, 7, 2] = 1" by (simp add: np_array_def ones_image_def)
  show ?thesis
    using h1 h2 v resize_noop_rescale_divides [OF h1 h2, of nearest] by simp
qed

subsection \<open>The script monad and the loaders\<close>

lemmas script_defs = andthen_def try_except_def lift_def ret_def emit_def raise_def

lemma filter_andthen:
  "filter P (fst (andthen m f))
     = filter P (fst m) @ (case snd m of Inl e \<Rightarrow> [] | Inr v \<Rightarrow> filter P (fst (f v)))"
  by (cases m) (auto simp: andthen_def split: sum.splits prod.splits)

lemma load_app_model_quiet: "filter is_inference (fst (load_app_model r)) = []"
  by (cases r) (simp_all add: load_app_model_def try_except_def andthen_def lift_def ret_def emit_def)

lemma load_class_names_quiet: "filter is_inference (fst (load_class_names r)) = []"
  by (cases r)
    (simp_all add: load_class_names_def try_except_def andthen_def lift_def ret_def emit_def raise_def)

lemma load_disease_info_quiet: "filter is_inference (fst (load_disease_info r)) = []"
  by (cases r)
    (simp_all add: load_disease_info_def try_except_def andthen_def lift_def ret_def emit_def raise_def)

lemma page_top_quiet: "filter is_inference (fst (emit page_top)) = []"
  by (simp add: emit_def page_top_def)

lemma provide_image_quiet: "filter is_inference (fst (provide_image w)) = []"
  by (simp add: provide_image_def try_except_def andthen_def lift_def ret_def emit_def raise_def
      Image_open_def split: input_method.splits option.splits sum.splits)

lemma load_app_model_missing:
  "load_app_model (Inl e) =
     ([St_error (''Error loading model: '' @ str_of e),
       St_error ''Please ensure 'trained_model.keras' is the correct binary model file and is in the same folder as app.py.''],
      Inr None)"
  by (simp add: load_app_model_def try_except_def andthen_def lift_def ret_def emit_def)

lemma analysis_blocked:
  assumes "model = None \<or> class_names = [] \<or> disease_info = []"
  shows "analysis flt img model class_names disease_info =
           ([St_header ''2. Analysis Result'',
             St_error ''App is not fully loaded. Check for file loading errors above.''], Inr ())"
  using assms by (auto simp: analysis_def andthen_def emit_def)

text \<open>
  C5, at its failing input: when \<open>class_names.json\<close> or \<open>disease_info.json\<close> exists
  but does not parse, \<open>json.load\<close> raises \<open>JSONDecodeError\<close>, which the handler for
  \<open>FileNotFoundError\<close> does not catch: the loader returns no sentinel and the exception
  reaches the caller. The model loader, whose handler catches every exception, returns
  \<open>None\<close> on the same failure.
\<close>

theorem loaders_parse_error:
  "load_class_names (Inl parse_error) = ([], Inl parse_error)
   \<and> load_disease_info (Inl parse_error) = ([], Inl parse_error)
   \<and> snd (load_app_model (Inl parse_error)) = Inr None"
  by (simp add: load_class_names_def load_disease_info_def load_app_model_def script_defs
      parse_error_def)

subsection \<open>The gate of line 104\<close>

text \<open>
  C6. When the model file fails to load, the model loader returns \<open>None\<close>; and whenever
  the model is \<open>None\<close>, or the class-name list or the disease-info dictionary loaded
  empty, the run makes no call of inference (neither the resize of preprocessing nor
  \<open>model.predict\<close>), whatever image the user provided and in either input mode.
\<close>

theorem sentinels_block_inference:
  assumes "(\<exists>e. load_model w = Inl e)
         \<or> snd (load_class_names (class_names_json w)) = Inr []
         \<or> snd (load_disease_info (disease_info_json w)) = Inr []"
  shows "(\<forall>e. load_model w = Inl e \<longrightarrow> snd (load_app_model (load_model w)) = Inr None)
       \<and> filter is_inference (fst (app w)) = []"
proof -
  have none: "\<forall>e. load_model w = Inl e \<longrightarrow> snd (load_app_model (load_model w)) = Inr None"
    by (simp add: load_app_model_missing)
  have "filter is_inference (fst (app w)) = []"
  proof -
    have blocked: "filter is_inference
             (fst (analysis (resample w) img model class_names disease_info)) = []"
      if "snd (load_app_model (load_model w)) = Inr model"
        and "snd (load_class_names (class_names_json w)) = Inr class_names"
        and "snd (load_disease_info (disease_info_json w)) = Inr disease_info"
      for img model class_names disease_info
    proof -
      have "model = None \<or> class_names = [] \<or> disease_info = []"
        using assms that none by auto
      then show ?thesis by (simp add: analysis_blocked)
    qed
    show ?thesis
      unfolding app_def
      by (simp add: filter_andthen load_app_model_quiet load_class_names_quiet
          load_disease_info_quiet page_top_quiet provide_image_quiet blocked
          split: sum.splits)
  qed
  with none show ?thesis by blast
qed

theorem sentinels_block_inference_witness:
  "(\<exists>e. load_model no_model_world = Inl e)
   \<and> snd (load_app_model (load_model no_model_world)) = Inr None
   \<and> uploaded_file no_model_world = Some (Inr rgb_photo)
   \<and> filter is_inference (fst (app no_model_world)) = []"
proof -
  have h: "\<exists>e. load_model no_model_world = Inl e" by (simp add: no_model_world_def)
  then have "(\<exists>e. load_model no_model_world = Inl e)
         \<or> snd (load_class_names (class_names_json no_model_world)) = Inr []
         \<or> snd (load_disease_info (disease_info_json no_model_world)) = Inr []" by blast
  note t = sentinels_block_inference [OF this]
  have u: "uploaded_file no_model_world = Some (Inr rgb_photo)" by (simp add: no_model_world_def)
  show ?thesis using h t u by blast
qed

subsection \<open>A predicted index beyond the label list\<close>

lemma predict_stage_index_fault:
  assumes "model (preprocess flt im) = Inr ps" and "np_argmax ps = Inr i"
    and "length class_names \<le> i"
  shows "predict_stage flt im model class_names =
           ([St_spinner (brain @ '' Analyzing the image... Please wait.''), Time_sleep 1,
             Image_resize (128, 128), Model_predict (preprocess flt im)],
            Inl (Raised IndexError ''list index out of range''))"
proof -
  have "ps \<noteq> []" using assms(2) by (auto simp: np_argmax_def)
  then have "np_max ps = Inr (Max (set ps))" by (rule np_max_Max)
  then show ?thesis
    using assms
    by (simp add: predict_stage_def interpretation_of_def model_predict_def script_defs
        list_getitem_def)
qed

lemma short_labels_app:
  "app short_labels_world =
     (page_top @
      [St_header ''1. Provide an Image'',
       St_file_uploader ''Click to upload a plant leaf image:''
         [''jpg'', ''png'', ''jpeg'', ''bmp'', ''webp''],
       St_image rgb_photo ''Your Image'',
       St_header ''2. Analysis Result'',
       St_spinner (brain @ '' Analyzing the image... Please wait.''), Time_sleep 1,
       Image_resize (128, 128), Model_predict (preprocess nearest rgb_photo)],
      Inl (Raised IndexError ''list index out of range''))"
  by (simp add: app_def short_labels_world_def load_app_model_def load_class_names_def
      load_disease_info_def provide_image_def Image_open_def analysis_def predict_stage_def
      model_predict_def interpretation_of_def np_argmax_def np_max_def list_getitem_def
      two_output_model_def script_defs)

text \<open>
  C7, as the claim states it, fails: with one label and a classifier of two outputs whose
  second score is the greater, the predicted index 1 is out of bounds, the run ends with
  an uncaught \<open>IndexError\<close>, and no error message was shown.
\<close>

theorem index_fault_counterexample:
  "np_argmax [0.1, 0.9] = Inr 1 \<and> \<not> 1 < length [''A'']
   \<and> snd (app short_labels_world) = Inl (Raised IndexError ''list index out of range'')
   \<and> filter is_st_error (fst (app short_labels_world)) = []"
  by (simp add: short_labels_app) (simp add: np_argmax_def page_top_def)

text \<open>
  C7, amended. Whenever the gate of line 104 passes and the predicted index is out of
  bounds for the class-label list, the lookup of line 118 raises \<open>IndexError\<close>, which
  nothing catches: the run ends after the classifier's call, having shown no class, no
  confidence and no error message.
\<close>

theorem index_fault_uncaught:
  assumes "model (preprocess flt im) = Inr ps" and "np_argmax ps = Inr i"
    and "length class_names \<le> i" and "class_names \<noteq> []" and "disease_info \<noteq> []"
  shows "analysis flt (Some im) (Some model) class_names disease_info =
           ([St_header ''2. Analysis Result'',
             St_spinner (brain @ '' Analyzing the image... Please wait.''), Time_sleep 1,
             Image_resize (128, 128), Model_predict (preprocess flt im)],
            Inl (Raised IndexError ''list index out of range''))"
  using assms(4,5)
    predict_stage_index_fault [of model flt im ps i class_names, OF assms(1,2,3)]
  by (simp add: analysis_def script_defs)

theorem index_fault_uncaught_witness:
  "two_output_model (preprocess nearest rgb_photo) = Inr [0.1, 0.9]
   \<and> np_argmax [0.1, 0.9] = Inr 1 \<and> length [''A''] \<le> 1
   \<and> analysis nearest (Some rgb_photo) (Some two_output_model) [''A'']
        [(''A'', [(''description'', ''d'')])] =
           ([St_header ''2. Analysis Result'',
             St_spinner (brain @ '' Analyzing the image... Please wait.''), Time_sleep 1,
             Image_resize (128, 128), Model_predict (preprocess nearest rgb_photo)],
            Inl (Raised IndexError ''list index out of range''))"
proof -
  have h1: "two_output_model (preprocess nearest rgb_photo) = Inr [0.1, 0.9]"
    by (simp add: two_output_model_def)
  have h2: "np_argmax [0.1, 0.9] = Inr 1" by (simp add: np_argmax_def)
  have h3: "length [''A''] \<le> (1::nat)" by simp
  have h4: "[''A''] \<noteq> []" by simp
  have h5: "[(''A'', [(''description'', ''d'')])] \<noteq> []" by simp
  show ?thesis
    using h1 h2 h3
      index_fault_uncaught [of two_output_model nearest rgb_photo "[0.1, 0.9]" 1 "[''A'']"
        "[(''A'', [(''description'', ''d'')])]", OF h1 h2 h3 h4 h5]
    by blast
qed

subsection \<open>Decode failures\<close>

text \<open>
  C8, at its failing input: in camera mode, a frame that \<open>Image.open\<close> cannot decode makes
  the exception leave the script uncaught, with no error message shown; in upload mode
  the same failure is caught, an error message is shown and the image is absent.
\<close>

theorem camera_decode_failure_uncaught:
  "snd (app bad_camera_world) = Inl bad_frame
   \<and> filter is_st_error (fst (app bad_camera_world)) = []
   \<and> provide_image (bad_camera_world\<lparr>upload_option := Upload_Image,
                                       uploaded_file := Some (Inl bad_frame)\<rparr>) =
       ([St_header ''1. Provide an Image'',
         St_file_uploader ''Click to upload a plant leaf image:''
           [''jpg'', ''png'', ''jpeg'', ''bmp'', ''webp''],
         St_error (''Error opening image file: '' @ str_of bad_frame
                   @ ''. Please try a different file.'')],
        Inr None)"
  by (simp add: app_def bad_camera_world_def load_app_model_def load_class_names_def
      load_disease_info_def provide_image_def Image_open_def script_defs page_top_def)

subsection \<open>A class without disease information\<close>

text \<open>
  C9. When the predicted class is not a key of the disease-info dictionary, the
  information part of the result is the single error message that the information is
  not available; the whole result shows that message exactly once, no tabs, nothing
  written in a tab, and nothing of the healthy branch.
\<close>

theorem missing_class_shows_not_available:
  assumes "map_of disease_info predicted_class = None"
  shows "disease_information predicted_class disease_info = [St_error not_available]
       \<and> filter is_information (show_result predicted_class confidence disease_info) = []
       \<and> count_list (show_result predicted_class confidence disease_info)
            (St_error not_available) = 1"
  using assms
  by (simp add: disease_information_def show_result_def confidence_banner_def not_available_def)

theorem missing_class_shows_not_available_witness:
  "map_of [(''A'', [(''description'', ''d'')])] ''B'' = None
   \<and> disease_information ''B'' [(''A'', [(''description'', ''d'')])] = [St_error not_available]
   \<and> filter is_information (show_result ''B'' 0.8 [(''A'', [(''description'', ''d'')])]) = []
   \<and> count_list (show_result ''B'' 0.8 [(''A'', [(''description'', ''d'')])])
            (St_error not_available) = 1"
proof -
  have h: "map_of [(''A'', [(''description'', ''d'')])] ''B'' = None" by simp
  show ?thesis
    using h missing_class_shows_not_available [OF h, of "0.8"] by blast
qed

subsection \<open>Channels\<close>

lemma fst_andthen:
  "fst (andthen m f) = fst m @ (case snd m of Inl e \<Rightarrow> [] | Inr v \<Rightarrow> fst (f v))"
  by (cases m) (auto simp: andthen_def split: sum.splits prod.splits)

lemma analysis_calls_predict:
  assumes "class_names \<noteq> []" and "disease_info \<noteq> []"
  shows "Model_predict (preprocess flt im)
           \<in> set (fst (analysis flt (Some im) (Some model) class_names disease_info))"
  using assms
  by (simp add: analysis_def predict_stage_def model_predict_def fst_andthen emit_def)

text \<open>
  C10, as the claim states it, fails: for a grayscale image (one band) the tensor has
  shape (1, 128, 128), not (1, 128, 128, 1).
\<close>

theorem grayscale_shape_counterexample:
  "im_bands gray_photo = 1
   \<and> nd_shape (preprocess nearest gray_photo) = [1, 128, 128]
   \<and> nd_shape (preprocess nearest gray_photo) \<noteq> [1, 128, 128, im_bands gray_photo]"
  by (simp add: preprocess_shape) (simp add: gray_photo_def)

text \<open>
  C10, amended. Preprocessing converts no channels: the tensor has shape
  (1, 128, 128, C) for an image of C bands when C is not 1, and shape (1, 128, 128), with
  no channel axis, for a single-band image; it has the shape (1, 128, 128, 3) exactly for
  three bands; and whenever the gate passes, \<open>model.predict\<close> is called with that tensor,
  whatever its shape.
\<close>

theorem no_channel_conversion:
  "nd_shape (preprocess flt im) =
     (if im_bands im = 1 then [1, 128, 128] else [1, 128, 128, im_bands im])
   \<and> (nd_shape (preprocess flt im) = [1, 128, 128, 3] \<longleftrightarrow> im_bands im = 3)
   \<and> (class_names \<noteq> [] \<and> disease_info \<noteq> [] \<longrightarrow>
        Model_predict (preprocess flt im)
          \<in> set (fst (analysis flt (Some im) (Some model) class_names disease_info)))"
  by (simp add: preprocess_shape analysis_calls_predict)

theorem no_channel_conversion_witness:
  "nd_shape (preprocess nearest gray_photo) = [1, 128, 128]
   \<and> nd_shape (preprocess nearest gray_photo) \<noteq> [1, 128, 128, 3]
   \<and> Model_predict (preprocess nearest gray_photo)
          \<in> set (fst (analysis nearest (Some gray_photo) (Some two_output_model) [''A'', ''B'']
                         [(''A'', [(''description'', ''d'')])]))"
proof -
  have b: "im_bands gray_photo = 1" by (simp add: gray_photo_def)
  have n: "[''A'', ''B''] \<noteq> [] \<and> [(''A'', [(''description'', ''d'')])] \<noteq> []" by simp
  show ?thesis
    using b n no_channel_conversion [of nearest gray_photo "[''A'', ''B'']"
        "[(''A'', [(''description'', ''d'')])]" two_output_model]
    by simp
qed

end
